theory Spec2Isabelle
  imports Complex_Main
begin

section \<open>The experiment controller of \<^verbatim>\<open>src/Lab.py\<close>\<close>

text \<open>
  \<^verbatim>\<open>Lab.experiment\<close> builds a universe, places the initial population on
  distinct cells, starts the agents' threads, supervises a run of whole-second ticks and
  drains the threads. What the method observes of the outside (the random numbers of
  \<^verbatim>\<open>randint\<close>, the readings of \<^verbatim>\<open>universe.get_time()\<close>, the readings of
  \<^verbatim>\<open>threading.active_count()\<close>) is given by an environment that is read in call
  order, and what it does to the outside (objects built, threads started, sleeps, the
  freeze signal) is appended to a trace. Console output and progress bars are left out;
  the start barrier and the population lock synchronise the agents' threads and play
  no part in the sequential results.
\<close>

subsection \<open>Values, errors and effects\<close>

text \<open>
  The exceptions that the modelled code can end in: a failed \<^verbatim>\<open>assert\<close>, the
  \<^verbatim>\<open>ValueError\<close> of \<^verbatim>\<open>randint\<close> on an empty range, and the
  interpreter's \<^verbatim>\<open>RecursionError\<close> when a call finds no stack frame left.
\<close>

datatype error = AssertionError | ValueError | RecursionError

text \<open>
  \<^verbatim>\<open>Position(y=..., x=...)\<close>. The class is defined in \<^verbatim>\<open>Position.py\<close>;
  membership \<^verbatim>\<open>new_pos not in positions\<close> compares positions by their
  coordinates.
\<close>

datatype Position = Position (pos_y: int) (pos_x: int)

datatype event =
    UniverseCreated int int
  | AgentCreated Position
  | AgentStarted nat
  | Slept rat
  | FreezeSet

text \<open>
  The environment: \<open>rand\<close> is the source of randomness, \<open>clock\<close> the successive
  readings of \<^verbatim>\<open>universe.get_time()\<close> in nanoseconds, \<open>threads\<close> the
  successive readings of \<^verbatim>\<open>threading.active_count()\<close>, and \<open>frames\<close> the
  number of stack frames that the interpreter still grants at a call of
  \<^verbatim>\<open>_generate_position\<close> from \<^verbatim>\<open>_invoke_initial_population\<close> (the
  recursion limit less the depth of the caller).
\<close>

record env =
  rand :: "nat \<Rightarrow> nat"
  clock :: "nat \<Rightarrow> int"
  threads :: "nat \<Rightarrow> int"
  frames :: nat

record state =
  rand_ix :: nat
  clock_ix :: nat
  threads_ix :: nat
  trace :: "event list"

definition get_time :: "env \<Rightarrow> state \<Rightarrow> int \<times> state" where
  "get_time e s = (clock e (clock_ix s), s\<lparr>clock_ix := clock_ix s + 1\<rparr>)"

definition active_count :: "env \<Rightarrow> state \<Rightarrow> int \<times> state" where
  "active_count e s = (threads e (threads_ix s), s\<lparr>threads_ix := threads_ix s + 1\<rparr>)"

definition sleep :: "rat \<Rightarrow> state \<Rightarrow> state" where
  "sleep d s = s\<lparr>trace := trace s @ [Slept d]\<rparr>"

text \<open>
  \<^verbatim>\<open>randint(a, b)\<close>: an integer of the closed range from \<open>a\<close> to \<open>b\<close>, any
  of them according to the next random number; \<^verbatim>\<open>ValueError\<close> on an empty range.
\<close>

definition randint :: "int \<Rightarrow> int \<Rightarrow> env \<Rightarrow> state \<Rightarrow> (error + int) \<times> state" where
  "randint a b e s =
     (if b < a then (Inl ValueError, s)
      else (Inr (a + int (rand e (rand_ix s)) mod (b - a + 1)),
            s\<lparr>rand_ix := rand_ix s + 1\<rparr>))"

subsection \<open>The universe and the agents' constructor\<close>

text \<open>
  Modelled from the spec: the class \<^verbatim>\<open>Universe\<close> (\<^verbatim>\<open>Universe.py\<close>) is not
  among the sources. The spec's data model gives it a grid \<open>space\<close> of
  \<open>height \<times> width\<close> cells, each empty or holding one agent, the registry
  \<open>population\<close>, the one-shot \<open>freeze\<close> signal and the \<open>culmination\<close>
  timestamp, unset until the run is drained.
\<close>

record Universe =
  u_height :: int
  u_width :: int
  space :: "Position \<Rightarrow> nat option"
  population :: "(nat \<times> Position) list"
  freeze :: bool
  culmination :: "int option"

definition Universe_init :: "int \<Rightarrow> int \<Rightarrow> state \<Rightarrow> Universe \<times> state" where
  "Universe_init height width s =
     (\<lparr>u_height = height, u_width = width, space = (\<lambda>_. None), population = [],
       freeze = False, culmination = None\<rparr>,
      s\<lparr>trace := trace s @ [UniverseCreated height width]\<rparr>)"

text \<open>
  Modelled from the spec: the constructor of \<^verbatim>\<open>Agent\<close> (\<^verbatim>\<open>Agent.py\<close>) is not
  among the sources. By the spec's registration it adds the agent to the population
  under a fresh identity and places it on its initial position in \<open>space\<close>.
\<close>

definition Agent_init :: "Universe \<Rightarrow> Position \<Rightarrow> state \<Rightarrow> Universe \<times> state" where
  "Agent_init universe initial_position s =
     (universe\<lparr>space := (space universe)(initial_position \<mapsto> length (population universe)),
               population := population universe @
                 [(length (population universe), initial_position)]\<rparr>,
      s\<lparr>trace := trace s @ [AgentCreated initial_position]\<rparr>)"

text \<open>
  The cells of the grid in row order, and \<^verbatim>\<open>np.sum(universe.space != None)\<close>.
\<close>

definition cells :: "int \<Rightarrow> int \<Rightarrow> Position list" where
  "cells height width =
     map (\<lambda>(cy, cx). Position cy cx) (List.product [0..height - 1] [0..width - 1])"

definition occupied_count :: "Universe \<Rightarrow> int" where
  "occupied_count universe =
     int (length (filter (\<lambda>p. space universe p \<noteq> None)
                         (cells (u_height universe) (u_width universe))))"

subsection \<open>Position generation\<close>

text \<open>
  \<^verbatim>\<open>Lab._generate_position\<close> (lines 107 to 112): draw \<open>y\<close>, then \<open>x\<close>; return
  the position when it is not in the list, and call itself otherwise. Python makes no
  tail call: each retry is a nested call and takes a stack frame, so the first argument
  counts the frames left, and a call that finds none ends in \<^verbatim>\<open>RecursionError\<close>.
\<close>

fun generate_position ::
  "nat \<Rightarrow> env \<Rightarrow> Position list \<Rightarrow> int \<Rightarrow> int \<Rightarrow> state \<Rightarrow> (error + Position) \<times> state" where
  "generate_position 0 e positions height width s = (Inl RecursionError, s)"
| "generate_position (Suc fr) e positions height width s =
     (case randint 0 (height - 1) e s of
        (Inl err, s1) \<Rightarrow> (Inl err, s1)
      | (Inr py, s1) \<Rightarrow>
          (case randint 0 (width - 1) e s1 of
             (Inl err, s2) \<Rightarrow> (Inl err, s2)
           | (Inr px, s2) \<Rightarrow>
               (let new_pos = Position py px in
                if new_pos \<notin> set positions then (Inr new_pos, s2)
                else generate_position fr e positions height width s2)))"

text \<open>
  \<^verbatim>\<open>Lab._invoke_initial_population\<close> (lines 114 to 147), for the one distribution
  there is: the loop over \<^verbatim>\<open>range(initial_population_count)\<close> that appends a
  generated position to \<open>positions\<close>, then the loop that constructs an agent on each.
\<close>

fun generate_positions ::
  "nat \<Rightarrow> env \<Rightarrow> Position list \<Rightarrow> int \<Rightarrow> int \<Rightarrow> state \<Rightarrow> (error + Position list) \<times> state" where
  "generate_positions 0 e positions height width s = (Inr positions, s)"
| "generate_positions (Suc n) e positions height width s =
     (case generate_position (frames e) e positions height width s of
        (Inl err, s1) \<Rightarrow> (Inl err, s1)
      | (Inr p, s1) \<Rightarrow> generate_positions n e (positions @ [p]) height width s1)"

fun create_agents :: "Position list \<Rightarrow> Universe \<Rightarrow> state \<Rightarrow> Universe \<times> state" where
  "create_agents [] universe s = (universe, s)"
| "create_agents (pos # ps) universe s =
     (case Agent_init universe pos s of (universe1, s1) \<Rightarrow> create_agents ps universe1 s1)"

definition invoke_initial_population ::
  "env \<Rightarrow> Universe \<Rightarrow> int \<Rightarrow> int \<Rightarrow> int \<Rightarrow> state \<Rightarrow> (error + Position list \<times> Universe) \<times> state" where
  "invoke_initial_population e universe height width initial_population_count s =
     (case generate_positions (nat initial_population_count) e [] height width s of
        (Inl err, s1) \<Rightarrow> (Inl err, s1)
      | (Inr positions, s1) \<Rightarrow>
          (case create_agents positions universe s1 of
             (universe1, s2) \<Rightarrow> (Inr (positions, universe1), s2)))"

text \<open>
  \<^verbatim>\<open>Lab._start_initial_population\<close> (lines 149 to 157): start the thread of each
  registered agent.
\<close>

definition start_initial_population :: "Universe \<Rightarrow> state \<Rightarrow> state" where
  "start_initial_population universe s =
     s\<lparr>trace := trace s @ map (\<lambda>a. AgentStarted (fst a)) (population universe)\<rparr>"

subsection \<open>The timed run\<close>

text \<open>
  \<^verbatim>\<open>int(start_running / 1e9)\<close>: the whole seconds of a reading in nanoseconds,
  truncated towards zero. The division is exact here, where Python's is in floating point.
\<close>

definition whole_seconds :: "int \<Rightarrow> int" where
  "whole_seconds ns = (if ns < 0 then - ((- ns) div 1000000000) else ns div 1000000000)"

text \<open>Lines 68 and 69.\<close>

definition simulation_duration :: "int \<Rightarrow> int \<Rightarrow> int \<Rightarrow> int" where
  "simulation_duration max_total_duration max_simulation_duration start_running =
     (let total_duration_remaining = max_total_duration - max 0 (whole_seconds start_running)
      in min total_duration_remaining max_simulation_duration)"

text \<open>\<^verbatim>\<open>range(simulation_duration, 0, -1)\<close>\<close>

definition range_down :: "int \<Rightarrow> int list" where
  "range_down n = rev [1..n]"

text \<open>
  The loop of lines 70 to 82 over the remaining ticks, with \<open>early_stop\<close> as its
  result: \<open>True\<close> at the \<^verbatim>\<open>break\<close>, \<open>False\<close> when the range is used up. The
  time \<open>t\<close> and the argument of \<^verbatim>\<open>sleep\<close> are exact rationals where Python has
  floats.
\<close>

fun run_loop :: "env \<Rightarrow> int \<Rightarrow> int \<Rightarrow> int \<Rightarrow> int list \<Rightarrow> state \<Rightarrow> bool \<times> state" where
  "run_loop e non_agents_threads sim_duration start_running [] s = (False, s)"
| "run_loop e non_agents_threads sim_duration start_running (i # ticks) s =
     (case active_count e s of
        (n, s1) \<Rightarrow>
          if n \<le> non_agents_threads then (True, s1)
          else
            (case get_time e s1 of
               (now, s2) \<Rightarrow>
                 (let t = of_int (now - start_running) / 1000000000
                  in run_loop e non_agents_threads sim_duration start_running ticks
                       (sleep (max (1 + of_int sim_duration - of_int i - t) 0) s2))))"

text \<open>Lines 66 to 83: the flag, the time the run ended at, and the state.\<close>

definition run_phase :: "env \<Rightarrow> int \<Rightarrow> int \<Rightarrow> int \<Rightarrow> state \<Rightarrow> bool \<times> int \<times> state" where
  "run_phase e non_agents_threads max_total_duration max_simulation_duration s =
     (case get_time e s of
        (start_running, s1) \<Rightarrow>
          (let sim_duration =
                 simulation_duration max_total_duration max_simulation_duration start_running
           in case run_loop e non_agents_threads sim_duration start_running
                     (range_down sim_duration) s1 of
                (early_stop, s2) \<Rightarrow>
                  (case get_time e s2 of (t_run, s3) \<Rightarrow> (early_stop, t_run, s3))))"

subsection \<open>Shutdown and the result\<close>

text \<open>
  The loop of lines 89 to 96. It runs for as long as the readings of the thread count
  stay above the baseline, so it is a partial function: \<open>None\<close> is the loop that never
  ends.
\<close>

partial_function (option) drain :: "env \<Rightarrow> int \<Rightarrow> int \<Rightarrow> state \<Rightarrow> state option" where
  "drain e non_agents_threads active_agents s =
     (if active_agents > 0
      then drain e non_agents_threads
             (fst (active_count e (sleep (1 / 10) s)) - non_agents_threads)
             (snd (active_count e (sleep (1 / 10) s)))
      else Some s)"

record result =
  parameters :: "(string \<times> int) list"
  timings :: "(string \<times> int) list"
  universe :: Universe

text \<open>Lines 86 to 105.\<close>

definition stop_phase ::
  "env \<Rightarrow> int \<Rightarrow> (string \<times> int) list \<Rightarrow> (string \<times> int) list \<Rightarrow> Universe \<Rightarrow> state \<Rightarrow>
   ((error + result) \<times> state) option" where
  "stop_phase e non_agents_threads params tms universe0 s =
     (let universe1 = universe0\<lparr>freeze := True\<rparr>;
          s1 = s\<lparr>trace := trace s @ [FreezeSet]\<rparr>
      in case active_count e s1 of
           (n, s2) \<Rightarrow>
             (case drain e non_agents_threads (n - non_agents_threads) s2 of
                None \<Rightarrow> None
              | Some s3 \<Rightarrow>
                  (case get_time e s3 of
                     (t_stop, s4) \<Rightarrow>
                       (let universe2 = universe1\<lparr>culmination := Some t_stop\<rparr>;
                            tms1 = tms @ [(''stop'', the (culmination universe2))]
                        in Some (Inr \<lparr>parameters = params, timings = tms1,
                                      universe = universe2\<rparr>, s4)))))"

text \<open>
  \<^verbatim>\<open>Lab.experiment\<close> (lines 22 to 105). The dictionaries \<open>parameters\<close> and
  \<open>timings\<close> are lists of entries in insertion order. The local \<open>early_stop\<close> is set
  by the run and read by nothing after it.
\<close>

definition Lab_experiment ::
  "env \<Rightarrow> int \<Rightarrow> int \<Rightarrow> int \<Rightarrow> int \<Rightarrow> int \<Rightarrow> state \<Rightarrow> ((error + result) \<times> state) option" where
  "Lab_experiment e height width initial_population_count max_total_duration
     max_simulation_duration s =
     (if \<not> initial_population_count \<le> height * width then Some (Inl AssertionError, s)
      else
        (let params = [(''height'', height), (''width'', width),
                       (''initial_population_count'', initial_population_count),
                       (''max_total_duration'', max_total_duration),
                       (''max_simulation_duration'', max_simulation_duration)]
         in case Universe_init height width s of
              (universe0, s1) \<Rightarrow>
         (case get_time e s1 of
              (t_init, s2) \<Rightarrow>
         (case invoke_initial_population e universe0 height width initial_population_count s2 of
              (Inl err, s3) \<Rightarrow> Some (Inl err, s3)
            | (Inr (positions, universe1), s3) \<Rightarrow>
                if occupied_count universe1 \<noteq> initial_population_count
                then Some (Inl AssertionError, s3)
                else
         (case get_time e s3 of
              (t_invoke, s4) \<Rightarrow>
         (case active_count e s4 of
              (non_agents_threads, s5) \<Rightarrow>
         (case get_time e (start_initial_population universe1 s5) of
              (t_start, s6) \<Rightarrow>
         (case run_phase e non_agents_threads max_total_duration max_simulation_duration s6 of
              (early_stop, t_run, s7) \<Rightarrow>
                stop_phase e non_agents_threads params
                  [(''init_universe'', t_init), (''invoke_initial_population'', t_invoke),
                   (''start_initial_population'', t_start), (''run'', t_run)]
                  universe1 s7))))))))"

subsection \<open>Notions for the statements, and concrete runs\<close>

text \<open>
  The position that the \<open>k\<close>-th attempt of a call of \<open>generate_position\<close> in
  state \<open>s\<close> draws on a grid of at least one cell: attempt \<open>k\<close> reads the random
  numbers \<open>2k\<close> and \<open>2k + 1\<close> after the ones already used.
\<close>

definition nth_draw :: "env \<Rightarrow> state \<Rightarrow> int \<Rightarrow> int \<Rightarrow> nat \<Rightarrow> Position" where
  "nth_draw e s height width k =
     Position (int (rand e (rand_ix s + 2 * k)) mod height)
              (int (rand e (rand_ix s + 2 * k + 1)) mod width)"

text \<open>
  The clock of the spec's data model: readings are elapsed times since the universe was
  created, never negative and never decreasing.

  Modelled from the spec: \<^verbatim>\<open>Universe.get_time\<close> is not among the sources.
\<close>

definition monotonic_clock :: "env \<Rightarrow> bool" where
  "monotonic_clock e = (\<forall>i j. i \<le> j \<longrightarrow> 0 \<le> clock e i \<and> clock e i \<le> clock e j)"

definition s0 :: state where
  "s0 = \<lparr>rand_ix = 0, clock_ix = 0, threads_ix = 0, trace = []\<rparr>"

text \<open>A random source that gives 0 at every draw, with the default recursion limit.\<close>

definition env_zeros :: env where
  "env_zeros = \<lparr>rand = (\<lambda>k. 0), clock = (\<lambda>k. int k * 1000), threads = (\<lambda>k. 1),
                 frames = 1000\<rparr>"

text \<open>A random source whose first position is row 0, column 0 and whose later ones are
  row 1, column 1 (reduced to the grid).\<close>

definition env_retry :: env where
  "env_retry = \<lparr>rand = (\<lambda>k. if k < 2 then 0 else 1), clock = (\<lambda>k. int k * 1000),
                 threads = (\<lambda>k. 1), frames = 1000\<rparr>"

text \<open>
  Two runs of one agent on a grid of one cell, with a budget of two ticks. In both, the
  first sleep of the run returns a second late, two seconds after the run began. In
  \<open>env_died\<close> the agent's thread has ended by then, and the check of the second
  tick sees the baseline. In \<open>env_alive\<close> the thread is still there at that
  check and ends right after it.
\<close>

definition env_died :: env where
  "env_died =
     \<lparr>rand = (\<lambda>k. 0),
      clock = (\<lambda>k. [1000, 2000, 3000, 4000, 5000, 2000010000, 2000020000] ! min k 6),
      threads = (\<lambda>k. [1, 2, 1, 1] ! min k 3),
      frames = 1000\<rparr>"

definition env_alive :: env where
  "env_alive =
     \<lparr>rand = (\<lambda>k. 0),
      clock = (\<lambda>k. [1000, 2000, 3000, 4000, 5000, 2000005000, 2000010000, 2000020000]
                     ! min k 7),
      threads = (\<lambda>k. [1, 2, 2, 1] ! min k 3),
      frames = 1000\<rparr>"

text \<open>The state in which both runs enter the timed run (line 66).\<close>

definition s_started :: state where
  "s_started = \<lparr>rand_ix = 2, clock_ix = 3, threads_ix = 1,
                  trace = [UniverseCreated 1 1, AgentCreated (Position 0 0), AgentStarted 0]\<rparr>"

text \<open>The state of both runs after the first reading of the run (line 67).\<close>

definition s_running :: state where
  "s_running = \<lparr>rand_ix = 2, clock_ix = 4, threads_ix = 1,
                  trace = [UniverseCreated 1 1, AgentCreated (Position 0 0), AgentStarted 0]\<rparr>"

text \<open>The dictionary that both runs return.\<close>

definition returned_by_both :: result where
  "returned_by_both =
     \<lparr>parameters = [(''height'', 1), (''width'', 1), (''initial_population_count'', 1),
                    (''max_total_duration'', 5), (''max_simulation_duration'', 2)],
      timings = [(''init_universe'', 1000), (''invoke_initial_population'', 2000),
                 (''start_initial_population'', 3000), (''run'', 2000010000),
                 (''stop'', 2000020000)],
      universe = \<lparr>u_height = 1, u_width = 1, space = [Position 0 0 \<mapsto> 0],
                   population = [(0, Position 0 0)], freeze = True,
                   culmination = Some 2000020000\<rparr>\<rparr>"

text \<open>
  The sleep of a tick in the words of the spec: the nominal remaining time of tick \<open>i\<close>,
  less the time \<open>t\<close> that has passed since the run began, and never negative. The
  time that has passed at the \<open>k\<close>-th reading of the clock, in seconds.
\<close>

definition drift_corrected_sleep :: "int \<Rightarrow> int \<Rightarrow> rat \<Rightarrow> rat" where
  "drift_corrected_sleep sim_duration i t = max (of_int (sim_duration - i + 1) - t) 0"

definition elapsed_seconds :: "env \<Rightarrow> int \<Rightarrow> nat \<Rightarrow> rat" where
  "elapsed_seconds e start_running k = of_int (clock e k - start_running) / 1000000000"

section \<open>Properties\<close>

subsection \<open>Facts about the draws\<close>

lemma randint_Inr:
  assumes "randint a b e s = (Inr v, s')"
  shows "a \<le> v \<and> v \<le> b \<and> s' = s\<lparr>rand_ix := rand_ix s + 1\<rparr>"
proof -
  from assms have ab: "a \<le> b"
    by (auto simp: randint_def split: if_splits)
  then have "0 < b - a + 1" by simp
  then have "0 \<le> int (rand e (rand_ix s)) mod (b - a + 1)"
    and "int (rand e (rand_ix s)) mod (b - a + 1) < b - a + 1"
    by (simp_all only: pos_mod_sign pos_mod_bound)
  with assms ab show ?thesis
    by (auto simp: randint_def split: if_splits)
qed

lemma randint_grid:
  "1 \<le> n \<Longrightarrow>
     randint 0 (n - 1) e s =
       (Inr (int (rand e (rand_ix s)) mod n), s\<lparr>rand_ix := rand_ix s + 1\<rparr>)"
  by (simp add: randint_def)

lemma nth_draw_shift:
  "nth_draw e (s\<lparr>rand_ix := Suc (Suc (rand_ix s))\<rparr>) height width k =
     nth_draw e s height width (Suc k)"
  by (simp add: nth_draw_def)

lemma in_cells:
  "p \<in> set (cells height width) \<longleftrightarrow>
     0 \<le> pos_y p \<and> pos_y p < height \<and> 0 \<le> pos_x p \<and> pos_x p < width"
  by (cases p) (auto simp: cells_def)

lemma distinct_cells: "distinct (cells height width)"
  by (auto simp: cells_def distinct_map distinct_product inj_on_def)

lemma nth_draw_in_cells:
  "1 \<le> height \<Longrightarrow> 1 \<le> width \<Longrightarrow> nth_draw e s height width k \<in> set (cells height width)"
  by (simp add: in_cells nth_draw_def)

text \<open>One call on a grid of at least one cell, in terms of the position it draws.\<close>

lemma generate_position_step:
  assumes "1 \<le> height" and "1 \<le> width"
  shows "generate_position (Suc fr) e positions height width s =
     (if nth_draw e s height width 0 \<notin> set positions
      then (Inr (nth_draw e s height width 0), s\<lparr>rand_ix := rand_ix s + 2\<rparr>)
      else generate_position fr e positions height width (s\<lparr>rand_ix := rand_ix s + 2\<rparr>))"
  using assms by (simp add: randint_grid nth_draw_def Let_def)

text \<open>When every attempt that the stack allows collides, the call ends in the
  interpreter's error.\<close>

lemma generate_position_all_collide:
  assumes "1 \<le> height" and "1 \<le> width"
  shows "\<forall>j<fr. nth_draw e s height width j \<in> set positions \<Longrightarrow>
     generate_position fr e positions height width s =
       (Inl RecursionError, s\<lparr>rand_ix := rand_ix s + 2 * fr\<rparr>)"
proof (induction fr arbitrary: s)
  case 0
  then show ?case by simp
next
  case (Suc fr)
  let ?s = "s\<lparr>rand_ix := rand_ix s + 2\<rparr>"
  from Suc.prems have first: "nth_draw e s height width 0 \<in> set positions" by simp
  from Suc.prems have "\<forall>j<fr. nth_draw e ?s height width j \<in> set positions"
    by (simp add: nth_draw_shift)
  then have "generate_position fr e positions height width ?s =
      (Inl RecursionError, ?s\<lparr>rand_ix := rand_ix ?s + 2 * fr\<rparr>)"
    by (rule Suc.IH)
  with first show ?case
    by (simp add: generate_position_step [OF assms] del: generate_position.simps)
qed

text \<open>When attempt \<open>k\<close> is the first that misses the list and the stack allows more
  than \<open>k\<close> frames, the call returns that position.\<close>

lemma generate_position_first_free:
  assumes "1 \<le> height" and "1 \<le> width"
  shows "k < fr \<Longrightarrow> \<forall>j<k. nth_draw e s height width j \<in> set positions \<Longrightarrow>
     nth_draw e s height width k \<notin> set positions \<Longrightarrow>
     generate_position fr e positions height width s =
       (Inr (nth_draw e s height width k), s\<lparr>rand_ix := rand_ix s + 2 * (k + 1)\<rparr>)"
proof (induction fr arbitrary: s k)
  case 0
  then show ?case by simp
next
  case (Suc fr)
  show ?case
  proof (cases k)
    case 0
    with Suc.prems show ?thesis
      by (simp add: generate_position_step [OF assms] del: generate_position.simps)
  next
    case (Suc k')
    let ?s = "s\<lparr>rand_ix := rand_ix s + 2\<rparr>"
    from Suc Suc.prems have first: "nth_draw e s height width 0 \<in> set positions" by simp
    from Suc Suc.prems have "k' < fr" by simp
    moreover from Suc Suc.prems have "\<forall>j<k'. nth_draw e ?s height width j \<in> set positions"
      by (simp add: nth_draw_shift)
    moreover from Suc Suc.prems have "nth_draw e ?s height width k' \<notin> set positions"
      by (simp add: nth_draw_shift)
    ultimately have "generate_position fr e positions height width ?s =
        (Inr (nth_draw e ?s height width k'), ?s\<lparr>rand_ix := rand_ix ?s + 2 * (k' + 1)\<rparr>)"
      by (rule Suc.IH)
    with first Suc show ?thesis
      by (simp add: generate_position_step [OF assms] nth_draw_shift
               del: generate_position.simps)
  qed
qed

text \<open>A returned position is a cell of the grid and is not in the list.\<close>

lemma generate_position_Inr:
  "generate_position fr e positions height width s = (Inr p, s') \<Longrightarrow>
     p \<in> set (cells height width) \<and> p \<notin> set positions"
proof (induction fr arbitrary: s)
  case 0
  then show ?case by simp
next
  case (Suc fr)
  then show ?case
    by (auto simp: Let_def in_cells split: prod.splits sum.splits if_splits
             dest!: randint_Inr)
qed

subsection \<open>The configuration check\<close>

text \<open>
  C5. A call of \<open>Lab_experiment\<close> with \<open>initial_population_count > height \<times> width\<close>
  ends in the assertion's error with the state it was called in: nothing was drawn, no
  clock or thread count was read, and the trace has no new event, so no universe was
  constructed, no position generated and no agent created.
\<close>

theorem experiment_rejects_overfull:
  assumes "height * width < initial_population_count"
  shows "Lab_experiment e height width initial_population_count max_total_duration
           max_simulation_duration s = Some (Inl AssertionError, s)"
  using assms by (simp add: Lab_experiment_def)

theorem experiment_rejects_overfull_witness:
  "Lab_experiment env_zeros 2 2 5 10 3 s0 = Some (Inl AssertionError, s0)"
  by (rule experiment_rejects_overfull) simp

subsection \<open>The position generator\<close>

text \<open>
  C9. Every position that \<open>generate_position\<close> returns lies on the grid:
  \<open>0 \<le> y < height\<close> and \<open>0 \<le> x < width\<close>. (On a grid with \<open>height < 1\<close> or
  \<open>width < 1\<close> the draw raises \<^verbatim>\<open>ValueError\<close> and nothing is returned, so the
  bounds hold for every height and width, in particular for those of at least 1.)
\<close>

theorem generate_position_in_bounds:
  assumes "generate_position fr e positions height width s = (Inr p, s')"
  shows "0 \<le> pos_y p \<and> pos_y p < height \<and> 0 \<le> pos_x p \<and> pos_x p < width"
  using generate_position_Inr [OF assms] by (simp add: in_cells)

theorem generate_position_in_bounds_witness:
  "generate_position 2 env_retry [Position 0 0] 3 4 s0 = (Inr (Position 1 1), s0\<lparr>rand_ix := 4\<rparr>)
   \<and> 0 \<le> pos_y (Position 1 1) \<and> pos_y (Position 1 1) < 3
   \<and> 0 \<le> pos_x (Position 1 1) \<and> pos_x (Position 1 1) < 4"
proof -
  have run: "generate_position 2 env_retry [Position 0 0] 3 4 s0 =
               (Inr (Position 1 1), s0\<lparr>rand_ix := 4\<rparr>)"
    using generate_position_first_free [of 3 4 1 2 env_retry s0 "[Position 0 0]"]
    by (simp add: nth_draw_def env_retry_def s0_def)
  from generate_position_in_bounds [OF run] run show ?thesis by simp
qed




text \<open>
  C3, as the code has it. When the list covers a grid of at least one cell,
  \<open>generate_position\<close> has no check that says so: every attempt collides, and the call
  ends in the interpreter's \<^verbatim>\<open>RecursionError\<close> once the stack is used up, after
  \<open>fr\<close> attempts. It returns no position and raises no error of its own.
\<close>

theorem generate_position_exhausted:
  assumes "1 \<le> height" and "1 \<le> width"
    and "set (cells height width) \<subseteq> set positions"
  shows "generate_position fr e positions height width s =
           (Inl RecursionError, s\<lparr>rand_ix := rand_ix s + 2 * fr\<rparr>)"
proof -
  have "\<forall>j<fr. nth_draw e s height width j \<in> set positions"
    using assms nth_draw_in_cells by blast
  from generate_position_all_collide [OF assms(1,2) this] show ?thesis .
qed

theorem generate_position_exhausted_witness:
  "generate_position 3 env_retry [Position 0 1, Position 0 0] 1 2 s0 =
     (Inl RecursionError, s0\<lparr>rand_ix := 6\<rparr>)"
proof -
  have cover: "set (cells 1 2) \<subseteq> set [Position 0 1, Position 0 0]"
  proof
    fix p
    assume "p \<in> set (cells 1 2)"
    then have b: "0 \<le> pos_y p \<and> pos_y p < 1 \<and> 0 \<le> pos_x p \<and> pos_x p < 2"
      by (simp add: in_cells)
    show "p \<in> set [Position 0 1, Position 0 0]"
    proof (cases p)
      case (Position py px)
      with b show ?thesis by auto
    qed
  qed
  from generate_position_exhausted [of 1 2 "[Position 0 1, Position 0 0]" 3 env_retry s0] cover
  show ?thesis by (simp add: s0_def)
qed

text \<open>
  The claim of C3 as it was stated fails: on the full grid of one cell, with the default
  limit of 1000 frames, the call ends in \<^verbatim>\<open>RecursionError\<close>, which is not an error
  of the configuration check (\<^verbatim>\<open>AssertionError\<close>).
\<close>

theorem full_grid_ends_in_recursion_error:
  "fst (generate_position (frames env_zeros) env_zeros [Position 0 0] 1 1 s0) =
     Inl RecursionError
   \<and> fst (generate_position (frames env_zeros) env_zeros [Position 0 0] 1 1 s0) \<noteq>
     Inl AssertionError"
  using generate_position_all_collide [of 1 1 "frames env_zeros" env_zeros s0 "[Position 0 0]"]
  by (simp add: nth_draw_def env_zeros_def s0_def)


subsection \<open>The initial population\<close>

lemma generate_position_frame:
  "generate_position fr e positions height width s = (r, s') \<Longrightarrow>
     clock_ix s' = clock_ix s \<and> threads_ix s' = threads_ix s \<and> trace s' = trace s"
proof (induction fr arbitrary: s)
  case 0
  then show ?case by auto
next
  case (Suc fr)
  then show ?case
    by (auto simp: Let_def randint_def split: prod.splits sum.splits if_splits)
qed

lemma generate_positions_Inr:
  "generate_positions n e positions height width s = (Inr ps, s') \<Longrightarrow>
     distinct positions \<Longrightarrow> set positions \<subseteq> set (cells height width) \<Longrightarrow>
     distinct ps \<and> set ps \<subseteq> set (cells height width) \<and> length ps = length positions + n"
proof (induction n arbitrary: positions s)
  case 0
  then show ?case by simp
next
  case (Suc n)
  from Suc.prems(1) obtain p s1 where
    gp: "generate_position (frames e) e positions height width s = (Inr p, s1)" and
    rest: "generate_positions n e (positions @ [p]) height width s1 = (Inr ps, s')"
    by (auto split: prod.splits sum.splits)
  from generate_position_Inr [OF gp] Suc.prems(2,3)
  have "distinct (positions @ [p])" and "set (positions @ [p]) \<subseteq> set (cells height width)"
    by simp_all
  from Suc.IH [OF rest this] show ?case by simp
qed

lemma generate_positions_frame:
  "generate_positions n e positions height width s = (r, s') \<Longrightarrow>
     clock_ix s' = clock_ix s \<and> threads_ix s' = threads_ix s \<and> trace s' = trace s"
proof (induction n arbitrary: positions s)
  case 0
  then show ?case by auto
next
  case (Suc n)
  then show ?case
    by (auto split: prod.splits sum.splits dest: generate_position_frame)
qed

lemma create_agents_effect:
  "create_agents ps u s = (u', s') \<Longrightarrow>
     u_height u' = u_height u \<and> u_width u' = u_width u \<and>
     freeze u' = freeze u \<and> culmination u' = culmination u \<and>
     (\<forall>p. space u' p \<noteq> None \<longleftrightarrow> p \<in> set ps \<or> space u p \<noteq> None) \<and>
     length (population u') = length (population u) + length ps \<and>
     clock_ix s' = clock_ix s \<and> threads_ix s' = threads_ix s \<and> rand_ix s' = rand_ix s \<and>
     trace s' = trace s @ map AgentCreated ps"
proof (induction ps arbitrary: u s)
  case Nil
  then show ?case by auto
next
  case (Cons p ps)
  from Cons.prems obtain u1 s1 where
    a: "Agent_init u p s = (u1, s1)" and r: "create_agents ps u1 s1 = (u', s')"
    by (auto split: prod.splits)
  from a have u1: "u_height u1 = u_height u" "u_width u1 = u_width u" "freeze u1 = freeze u"
    "culmination u1 = culmination u"
    "\<forall>q. space u1 q \<noteq> None \<longleftrightarrow> q = p \<or> space u q \<noteq> None"
    "population u1 = population u @ [(length (population u), p)]"
    "clock_ix s1 = clock_ix s" "threads_ix s1 = threads_ix s" "rand_ix s1 = rand_ix s"
    "trace s1 = trace s @ [AgentCreated p]"
    by (auto simp: Agent_init_def)
  from Cons.IH [OF r] u1 show ?case
    by auto
qed

lemma filter_mem_length:
  assumes "distinct ps" and "set ps \<subseteq> set cs" and "distinct cs"
  shows "length (filter (\<lambda>p. p \<in> set ps) cs) = length ps"
proof -
  have "set (filter (\<lambda>p. p \<in> set ps) cs) = set ps" using assms(2) by auto
  moreover have "distinct (filter (\<lambda>p. p \<in> set ps) cs)" using assms(3) by simp
  ultimately have "length (filter (\<lambda>p. p \<in> set ps) cs) = card (set ps)"
    by (metis distinct_card)
  with assms(1) show ?thesis by (simp add: distinct_card)
qed

text \<open>What a completed \<open>invoke_initial_population\<close> on an empty universe has done.\<close>

lemma invoke_initial_population_Inr:
  assumes "invoke_initial_population e u height width n s = (Inr (ps, u'), s')"
    and "u_height u = height" and "u_width u = width" and "\<forall>p. space u p = None"
  shows "distinct ps \<and> set ps \<subseteq> set (cells height width) \<and> length ps = nat n \<and>
         occupied_count u' = int (length ps) \<and>
         trace s' = trace s @ map AgentCreated ps \<and>
         clock_ix s' = clock_ix s \<and> threads_ix s' = threads_ix s \<and>
         length (population u') = length (population u) + length ps \<and>
         freeze u' = freeze u \<and> culmination u' = culmination u"
proof -
  from assms(1) obtain s1 where
    g: "generate_positions (nat n) e [] height width s = (Inr ps, s1)" and
    c: "create_agents ps u s1 = (u', s')"
    by (auto simp: invoke_initial_population_def split: prod.splits sum.splits)
  from generate_positions_Inr [OF g]
  have ps: "distinct ps" "set ps \<subseteq> set (cells height width)" "length ps = nat n"
    by simp_all
  note ce = create_agents_effect [OF c]
  from ce assms(4) have "(\<lambda>p. space u' p \<noteq> None) = (\<lambda>p. p \<in> set ps)" by auto
  with ce assms(2,3)
  have "occupied_count u' = int (length (filter (\<lambda>p. p \<in> set ps) (cells height width)))"
    by (simp add: occupied_count_def)
  with filter_mem_length [OF ps(1,2) distinct_cells]
  have "occupied_count u' = int (length ps)" by simp
  with ps ce generate_positions_frame [OF g] show ?thesis by simp
qed

lemma generate_position_returns_iff:
  assumes "1 \<le> height" and "1 \<le> width"
  shows "(\<exists>p s'. generate_position fr e positions height width s = (Inr p, s')) \<longleftrightarrow>
         (\<exists>k<fr. nth_draw e s height width k \<notin> set positions)"
proof (induction fr arbitrary: s)
  case 0
  then show ?case by simp
next
  case (Suc fr)
  show ?case
  proof (cases "nth_draw e s height width 0 \<in> set positions")
    case True
    have "(\<exists>k<Suc fr. nth_draw e s height width k \<notin> set positions) \<longleftrightarrow>
          (\<exists>k<fr. nth_draw e s height width (Suc k) \<notin> set positions)"
      using True by (metis less_Suc_eq_0_disj)
    with True show ?thesis
      by (simp add: generate_position_step [OF assms] Suc.IH nth_draw_shift
               del: generate_position.simps)
  next
    case False
    then show ?thesis
      by (auto simp: generate_position_step [OF assms] simp del: generate_position.simps)
  qed
qed

lemma generate_position_first_try:
  assumes "1 \<le> height" and "1 \<le> width" and "0 < fr"
    and "nth_draw e s height width 0 \<notin> set positions"
  shows "generate_position fr e positions height width s =
           (Inr (nth_draw e s height width 0), s\<lparr>rand_ix := rand_ix s + 2\<rparr>)"
  using generate_position_first_free [OF assms(1,2), of 0 fr e s positions] assms(3,4)
  by simp

lemma cells_1_1: "cells 1 1 = [Position 0 0]"
  by (simp add: cells_def)

lemma cells_1_2: "cells 1 2 = [Position 0 0, Position 0 1]"
  by (simp add: cells_def upto.simps)

text \<open>
  What the generator achieves when it returns. A position that \<open>generate_position\<close>
  returns is not in the list it was given. When \<open>invoke_initial_population\<close>
  completes on the new universe, no two of its positions coincide, there are
  \<open>initial_population_count\<close> of them (none for a negative count), and as many cells
  of the universe are occupied. (The occupied cells are those of the agents'
  constructor, which is modelled from the spec.)
\<close>

lemma completed_invocation_positions:
  "(generate_position fr e positions height width s = (Inr p, s') \<longrightarrow> p \<notin> set positions)
   \<and> (invoke_initial_population e (fst (Universe_init height width s1)) height width n s2
          = (Inr (ps, u), s3) \<longrightarrow>
        distinct ps \<and> int (length ps) = max 0 n \<and> occupied_count u = max 0 n)"
proof (intro conjI impI)
  assume "generate_position fr e positions height width s = (Inr p, s')"
  from generate_position_Inr [OF this] show "p \<notin> set positions" by simp
next
  assume a: "invoke_initial_population e (fst (Universe_init height width s1)) height width n s2
               = (Inr (ps, u), s3)"
  have "u_height (fst (Universe_init height width s1)) = height"
    and "u_width (fst (Universe_init height width s1)) = width"
    and "\<forall>q. space (fst (Universe_init height width s1)) q = None"
    by (simp_all add: Universe_init_def)
  from invoke_initial_population_Inr [OF a this]
  have r: "distinct ps" "length ps = nat n" "occupied_count u = int (length ps)" by simp_all
  from r show "distinct ps" by simp
  from r show "int (length ps) = max 0 n" by simp
  from r show "occupied_count u = max 0 n" by simp
qed

text \<open>An invocation that completes: two agents on a grid of one row and two columns,
  the second position found without a collision.\<close>

lemma completed_invocation_example:
  "invoke_initial_population env_retry (fst (Universe_init 1 2 s0)) 1 2 2 s0 =
     (Inr ([Position 0 0, Position 0 1],
        \<lparr>u_height = 1, u_width = 2,
         space = [Position 0 0 \<mapsto> 0, Position 0 1 \<mapsto> 1],
         population = [(0, Position 0 0), (1, Position 0 1)], freeze = False,
         culmination = None\<rparr>),
      \<lparr>rand_ix = 4, clock_ix = 0, threads_ix = 0,
       trace = [AgentCreated (Position 0 0), AgentCreated (Position 0 1)]\<rparr>)"
  by (simp add: invoke_initial_population_def generate_position_first_try nth_draw_def
        Agent_init_def Universe_init_def env_retry_def s0_def numeral_2_eq_2
      del: generate_position.simps)

text \<open>
  C6. The claim is that a call of \<open>generate_position\<close> with a list that does not
  cover the grid returns a position that is not in the list, so that the initial
  positions are distinct and \<open>initial_population_count\<close> cells are occupied after
  the invocation. The code attempts this by drawing again until a draw is free, and it
  asserts the outcome (lines 31 and 55 to 57), but each retry is a nested call: a call
  whose draws collide for as long as the stack lasts ends in \<^verbatim>\<open>RecursionError\<close>
  with a free cell left. The configuration below, two agents on a grid of one row and
  two columns, passes the check of line 31. The first position takes column 0; for the
  second the cell of column 1 is free, every draw falls on column 0, and with 1000
  frames the call returns no position. The experiment ends in \<^verbatim>\<open>RecursionError\<close>
  while it generates the positions, after the universe was constructed and before any
  agent is.
\<close>

theorem valid_configuration_ends_in_recursion_error:
  "(2::int) \<le> 1 * 2
   \<and> Position 0 1 \<in> set (cells 1 2) \<and> Position 0 1 \<notin> set [Position 0 0]
   \<and> generate_position (frames env_zeros) env_zeros [Position 0 0] 1 2 s0 =
       (Inl RecursionError, s0\<lparr>rand_ix := 2000\<rparr>)
   \<and> Lab_experiment env_zeros 1 2 2 5 2 s0 =
       Some (Inl RecursionError,
             \<lparr>rand_ix = 2002, clock_ix = 1, threads_ix = 0,
              trace = [UniverseCreated 1 2]\<rparr>)"
proof -
  have "generate_position (frames env_zeros) env_zeros [Position 0 0] 1 2 s0 =
          (Inl RecursionError, s0\<lparr>rand_ix := 2000\<rparr>)"
    using generate_position_all_collide
            [of 1 2 "frames env_zeros" env_zeros s0 "[Position 0 0]"]
    by (simp add: nth_draw_def env_zeros_def s0_def)
  moreover have "Lab_experiment env_zeros 1 2 2 5 2 s0 =
       Some (Inl RecursionError,
             \<lparr>rand_ix = 2002, clock_ix = 1, threads_ix = 0,
              trace = [UniverseCreated 1 2]\<rparr>)"
    by (simp add: Lab_experiment_def Universe_init_def get_time_def
          invoke_initial_population_def generate_position_first_try
          generate_position_all_collide nth_draw_def s0_def env_zeros_def numeral_2_eq_2
        del: generate_position.simps)
  ultimately show ?thesis by (simp add: cells_1_2)
qed

subsection \<open>The duration of the run\<close>

lemma length_range_down: "int (length (range_down n)) = max 0 n"
  by (simp add: range_down_def)

text \<open>
  C4, as the code has it. \<open>simulation_duration\<close> is the smaller of
  \<open>max_total_duration\<close> less the whole seconds that have passed and
  \<open>max_simulation_duration\<close>. Only the seconds that have passed are clamped at 0; the
  result is not, and it is negative exactly when \<open>max_total_duration\<close> is less than
  the seconds that have passed or \<open>max_simulation_duration\<close> is negative. The loop
  over \<^verbatim>\<open>range(simulation_duration, 0, -1)\<close> then has no tick: the number of its
  ticks is the duration clamped at 0.
\<close>

theorem simulation_duration_unclamped:
  "simulation_duration max_total_duration max_simulation_duration start_running =
     min (max_total_duration - max 0 (whole_seconds start_running)) max_simulation_duration
   \<and> (simulation_duration max_total_duration max_simulation_duration start_running < 0 \<longleftrightarrow>
        max_total_duration < max 0 (whole_seconds start_running) \<or> max_simulation_duration < 0)
   \<and> int (length (range_down
        (simulation_duration max_total_duration max_simulation_duration start_running))) =
      max 0 (simulation_duration max_total_duration max_simulation_duration start_running)"
  by (auto simp: simulation_duration_def Let_def length_range_down)

text \<open>
  The claim of C4 as it was stated fails: with a total budget of 1 second, 5 seconds
  after the universe was created, the duration is \<open>- 4\<close>, where the clamped minimum
  of the claim is 0.
\<close>

theorem simulation_duration_negative:
  "simulation_duration 1 3 5000000000 = - 4
   \<and> simulation_duration 1 3 5000000000 \<noteq> max 0 (min (1 - whole_seconds 5000000000) 3)"
  by (simp add: simulation_duration_def whole_seconds_def)

subsection \<open>The ticks of the run\<close>

text \<open>
  What the loop has done when it ends after \<open>m\<close> sleeps: it has read the clock \<open>m\<close>
  times and the thread count once more when it ended by the \<^verbatim>\<open>break\<close>, and it
  has appended one sleep for each of the first \<open>m\<close> ticks.
\<close>

lemma run_loop_effect:
  "run_loop e base sd start ticks s = (flag, s') \<Longrightarrow>
   \<exists>m\<le>length ticks. clock_ix s' = clock_ix s + m \<and>
      threads_ix s' = threads_ix s + (if flag then m + 1 else m) \<and>
      (flag \<longleftrightarrow> m < length ticks) \<and>
      rand_ix s' = rand_ix s \<and>
      trace s' = trace s @
        map (\<lambda>k. Slept (max (of_int (sd - ticks ! k + 1)
                          - of_int (clock e (clock_ix s + k) - start) / 1000000000) 0)) [0..<m]"
proof (induction ticks arbitrary: s)
  case Nil
  then show ?case by simp
next
  case (Cons i ticks)
  show ?case
  proof (cases "threads e (threads_ix s) \<le> base")
    case True
    with Cons.prems show ?thesis
      by (auto simp: active_count_def)
  next
    case False
    let ?d = "max (1 + of_int sd - of_int i
                     - of_int (clock e (clock_ix s) - start) / 1000000000) (0::rat)"
    let ?s3 = "sleep ?d (snd (get_time e (snd (active_count e s))))"
    from False Cons.prems have r: "run_loop e base sd start ticks ?s3 = (flag, s')"
      by (simp add: active_count_def get_time_def Let_def)
    have s3: "clock_ix ?s3 = clock_ix s + 1" "threads_ix ?s3 = threads_ix s + 1"
      "rand_ix ?s3 = rand_ix s" "trace ?s3 = trace s @ [Slept ?d]"
      by (simp_all add: sleep_def get_time_def active_count_def)
    from Cons.IH [OF r] obtain m where m: "m \<le> length ticks" "clock_ix s' = clock_ix ?s3 + m"
      "threads_ix s' = threads_ix ?s3 + (if flag then m + 1 else m)"
      "flag \<longleftrightarrow> m < length ticks" "rand_ix s' = rand_ix ?s3"
      "trace s' = trace ?s3 @
        map (\<lambda>k. Slept (max (of_int (sd - ticks ! k + 1)
                - of_int (clock e (clock_ix ?s3 + k) - start) / 1000000000) 0)) [0..<m]"
      by blast
    have "map (\<lambda>k. Slept (max (of_int (sd - (i # ticks) ! k + 1)
                - of_int (clock e (clock_ix s + k) - start) / 1000000000) 0)) [0..<Suc m]
          = Slept ?d # map (\<lambda>k. Slept (max (of_int (sd - ticks ! k + 1)
                - of_int (clock e (clock_ix ?s3 + k) - start) / 1000000000) 0)) [0..<m]"
      unfolding s3 by (simp add: map_upt_Suc del: upt_Suc)
    with m s3 show ?thesis
      by (intro exI [of _ "Suc m"]) (simp del: upt_Suc)
  qed
qed

lemma range_down_2: "range_down 2 = [2, 1]"
  by (simp add: range_down_def upto.simps)

text \<open>
  C7. The sleeps of the loop are those of the spec. When the loop ends after \<open>m\<close>
  sleeps, the trace has grown by exactly one sleep for each of the first \<open>m\<close> ticks,
  and the sleep of tick \<open>i\<close>, taken when \<open>t\<close> seconds have passed since the run
  began, is \<open>max ((simulation_duration - i + 1) - t) 0\<close>, which is never negative.
  (The time \<open>t\<close> is the reading of the clock in that tick, less \<open>start_running\<close>.)
\<close>

theorem run_loop_sleeps:
  assumes "run_loop e non_agents_threads sim_duration start_running ticks s = (early_stop, s')"
  shows "\<exists>m\<le>length ticks.
           (early_stop \<longleftrightarrow> m < length ticks) \<and> clock_ix s' = clock_ix s + m \<and>
           trace s' = trace s @
             map (\<lambda>k. Slept (drift_corrected_sleep sim_duration (ticks ! k)
                               (elapsed_seconds e start_running (clock_ix s + k)))) [0..<m] \<and>
           (\<forall>i t. drift_corrected_sleep sim_duration i t
                     = max (of_int (sim_duration - i + 1) - t) 0
                   \<and> 0 \<le> drift_corrected_sleep sim_duration i t)"
proof -
  from run_loop_effect [OF assms] obtain m where
    "m \<le> length ticks" "clock_ix s' = clock_ix s + m" "early_stop \<longleftrightarrow> m < length ticks"
    "trace s' = trace s @
        map (\<lambda>k. Slept (max (of_int (sim_duration - ticks ! k + 1)
           - of_int (clock e (clock_ix s + k) - start_running) / 1000000000) 0)) [0..<m]"
    by blast
  then show ?thesis
    by (intro exI [of _ m]) (simp add: drift_corrected_sleep_def elapsed_seconds_def)
qed

theorem run_loop_sleeps_witness:
  "run_loop env_alive 1 2 4000 (range_down 2) s_running =
     (False, s_running\<lparr>clock_ix := 6, threads_ix := 3,
                trace := trace s_running @ [Slept (999999 / 1000000), Slept 0]\<rparr>)
   \<and> (\<exists>m\<le>length (range_down 2).
        trace (s_running\<lparr>clock_ix := 6, threads_ix := 3,
                 trace := trace s_running @ [Slept (999999 / 1000000), Slept 0]\<rparr>) =
        trace s_running @
          map (\<lambda>k. Slept (drift_corrected_sleep 2 (range_down 2 ! k)
                            (elapsed_seconds env_alive 4000 (clock_ix s_running + k)))) [0..<m])"
proof -
  have run: "run_loop env_alive 1 2 4000 (range_down 2) s_running =
     (False, s_running\<lparr>clock_ix := 6, threads_ix := 3,
                trace := trace s_running @ [Slept (999999 / 1000000), Slept 0]\<rparr>)"
    by (simp add: range_down_2 active_count_def get_time_def sleep_def env_alive_def
          s_running_def)
  from run_loop_sleeps [OF run] obtain m where
    "m \<le> length (range_down 2)"
    "trace (s_running\<lparr>clock_ix := 6, threads_ix := 3,
                 trace := trace s_running @ [Slept (999999 / 1000000), Slept 0]\<rparr>) =
        trace s_running @
          map (\<lambda>k. Slept (drift_corrected_sleep 2 (range_down 2 ! k)
                            (elapsed_seconds env_alive 4000 (clock_ix s_running + k)))) [0..<m]"
    by blast
  with run show ?thesis by blast
qed


subsection \<open>The phases of the experiment\<close>

lemma drain_done: "active_agents \<le> 0 \<Longrightarrow> drain e base active_agents s = Some s"
  by (subst drain.simps) simp

lemma drain_more:
  "0 < active_agents \<Longrightarrow>
     drain e base active_agents s =
       drain e base (threads e (threads_ix s) - base)
         (s\<lparr>trace := trace s @ [Slept (1 / 10)], threads_ix := threads_ix s + 1\<rparr>)"
  by (subst drain.simps) (simp add: active_count_def sleep_def)

text \<open>A drain that ends has slept a tenth of a second for each reading of the thread
  count, and has done nothing else.\<close>

lemma drain_effect:
  "drain e base active_agents s = Some s' \<Longrightarrow>
     \<exists>k. trace s' = trace s @ replicate k (Slept (1 / 10)) \<and>
         threads_ix s' = threads_ix s + k \<and> clock_ix s' = clock_ix s \<and>
         rand_ix s' = rand_ix s"
proof (induction rule: drain.raw_induct [rotated 1, consumes 1])
  case (1 drain' e base active_agents s s')
  show ?case
  proof (cases "active_agents > 0")
    case False
    with 1(2) show ?thesis by (intro exI [of _ 0]) simp
  next
    case True
    let ?s1 = "snd (active_count e (sleep (1 / 10) s))"
    from True 1(2)
    have "drain' e base (fst (active_count e (sleep (1 / 10) s)) - base) ?s1 = Some s'"
      by simp
    from 1(1) [OF this] obtain k where
      "trace s' = trace ?s1 @ replicate k (Slept (1 / 10))"
      "threads_ix s' = threads_ix ?s1 + k" "clock_ix s' = clock_ix ?s1"
      "rand_ix s' = rand_ix ?s1"
      by blast
    then show ?thesis
      by (intro exI [of _ "Suc k"])
         (simp add: active_count_def sleep_def replicate_append_same)
  qed
qed

lemma run_phase_effect:
  assumes "run_phase e base mtd msd s = (flag, t_run, s')"
  shows "\<exists>m. int m \<le> max 0 (simulation_duration mtd msd (clock e (clock_ix s))) \<and>
     (flag \<longleftrightarrow> int m < max 0 (simulation_duration mtd msd (clock e (clock_ix s)))) \<and>
     t_run = clock e (clock_ix s + 1 + m) \<and> clock_ix s' = clock_ix s + 2 + m \<and>
     threads_ix s' = threads_ix s + (if flag then m + 1 else m) \<and> rand_ix s' = rand_ix s \<and>
     (\<exists>ds. length ds = m \<and> trace s' = trace s @ map Slept ds)"
proof -
  let ?sd = "simulation_duration mtd msd (clock e (clock_ix s))"
  let ?s1 = "s\<lparr>clock_ix := clock_ix s + 1\<rparr>"
  from assms obtain s2 where
    l: "run_loop e base ?sd (clock e (clock_ix s)) (range_down ?sd) ?s1 = (flag, s2)" and
    t: "t_run = clock e (clock_ix s2)" and s': "s' = s2\<lparr>clock_ix := clock_ix s2 + 1\<rparr>"
    by (auto simp: run_phase_def get_time_def Let_def split: prod.splits)
  from run_loop_effect [OF l] obtain m where m: "m \<le> length (range_down ?sd)"
    "clock_ix s2 = clock_ix ?s1 + m"
    "threads_ix s2 = threads_ix ?s1 + (if flag then m + 1 else m)"
    "flag \<longleftrightarrow> m < length (range_down ?sd)" "rand_ix s2 = rand_ix ?s1"
    "trace s2 = trace ?s1 @
        map (\<lambda>k. Slept (max (of_int (?sd - range_down ?sd ! k + 1)
           - of_int (clock e (clock_ix ?s1 + k) - clock e (clock_ix s)) / 1000000000) 0))
          [0..<m]"
    by blast
  have len: "int (length (range_down ?sd)) = max 0 ?sd" by (rule length_range_down)
  from m(6) have "\<exists>ds. length ds = m \<and> trace s2 = trace s @ map Slept ds"
    by (intro exI [of _ "map (\<lambda>k. max (of_int (?sd - range_down ?sd ! k + 1)
           - of_int (clock e (clock_ix ?s1 + k) - clock e (clock_ix s)) / 1000000000) 0)
          [0..<m]"])
       (simp add: comp_def)
  with m len t s' show ?thesis
    by (intro exI [of _ m]) auto
qed

lemma stop_phase_effect:
  assumes "stop_phase e base params tms u s = Some (r, s')"
  shows "\<exists>k. r = Inr \<lparr>parameters = params,
                      timings = tms @ [(''stop'', clock e (clock_ix s))],
                      universe = u\<lparr>freeze := True,
                                    culmination := Some (clock e (clock_ix s))\<rparr>\<rparr> \<and>
     trace s' = trace s @ FreezeSet # replicate k (Slept (1 / 10)) \<and>
     threads_ix s' = threads_ix s + 1 + k \<and> clock_ix s' = clock_ix s + 1 \<and>
     rand_ix s' = rand_ix s"
proof -
  let ?s2 = "s\<lparr>trace := trace s @ [FreezeSet], threads_ix := threads_ix s + 1\<rparr>"
  from assms obtain s3 where
    d: "drain e base (threads e (threads_ix s) - base) ?s2 = Some s3" and
    r: "r = Inr \<lparr>parameters = params,
                 timings = tms @ [(''stop'', clock e (clock_ix s3))],
                 universe = u\<lparr>freeze := True,
                               culmination := Some (clock e (clock_ix s3))\<rparr>\<rparr>" and
    s': "s' = s3\<lparr>clock_ix := clock_ix s3 + 1\<rparr>"
    by (auto simp: stop_phase_def active_count_def get_time_def Let_def
             split: option.splits)
  from drain_effect [OF d] obtain k where
    "trace s3 = trace ?s2 @ replicate k (Slept (1 / 10))"
    "threads_ix s3 = threads_ix ?s2 + k" "clock_ix s3 = clock_ix ?s2"
    "rand_ix s3 = rand_ix ?s2"
    by blast
  with r s' show ?thesis by (intro exI [of _ k]) simp
qed

text \<open>
  A call of \<open>Lab_experiment\<close> that returns a dictionary has passed the configuration
  check, placed the population on distinct cells, entered the run in a state \<open>s6\<close>
  three readings of the clock and one reading of the thread count after the call, and
  gone from the state \<open>s7\<close> at the end of the run through the shutdown.
\<close>

lemma Lab_experiment_Inr:
  assumes "Lab_experiment e height width n mtd msd s = Some (Inr res, s')"
  shows "\<exists>ps u1 s6 flag t_run s7 k.
     n \<le> height * width \<and> distinct ps \<and> int (length ps) = n \<and> occupied_count u1 = n \<and>
     clock_ix s6 = clock_ix s + 3 \<and> threads_ix s6 = threads_ix s + 1 \<and>
     trace s6 = trace s @ UniverseCreated height width # map AgentCreated ps @
                  map (\<lambda>a. AgentStarted (fst a)) (population u1) \<and>
     run_phase e (threads e (threads_ix s)) mtd msd s6 = (flag, t_run, s7) \<and>
     res = \<lparr>parameters = [(''height'', height), (''width'', width),
                       (''initial_population_count'', n),
                       (''max_total_duration'', mtd),
                       (''max_simulation_duration'', msd)],
            timings = [(''init_universe'', clock e (clock_ix s)),
                       (''invoke_initial_population'', clock e (clock_ix s + 1)),
                       (''start_initial_population'', clock e (clock_ix s + 2)),
                       (''run'', t_run), (''stop'', clock e (clock_ix s7))],
            universe = u1\<lparr>freeze := True,
                             culmination := Some (clock e (clock_ix s7))\<rparr>\<rparr> \<and>
     trace s' = trace s7 @ FreezeSet # replicate k (Slept (1 / 10)) \<and>
     threads_ix s' = threads_ix s7 + 1 + k \<and> clock_ix s' = clock_ix s7 + 1"
proof -
  let ?u0 = "fst (Universe_init height width s)"
  let ?s2 = "snd (get_time e (snd (Universe_init height width s)))"
  let ?params = "[(''height'', height), (''width'', width),
                       (''initial_population_count'', n),
                       (''max_total_duration'', mtd),
                       (''max_simulation_duration'', msd)]"
  from assms have le: "n \<le> height * width"
    by (auto simp: Lab_experiment_def split: if_splits)
  from assms le obtain ps u1 s3 where
    inv: "invoke_initial_population e ?u0 height width n ?s2 = (Inr (ps, u1), s3)"
    by (auto simp: Lab_experiment_def Let_def split: prod.splits sum.splits if_splits)
  let ?s5 = "snd (active_count e (snd (get_time e s3)))"
  let ?s6 = "snd (get_time e (start_initial_population u1 ?s5))"
  let ?base = "fst (active_count e (snd (get_time e s3)))"
  obtain flag t_run s7 where rp: "run_phase e ?base mtd msd ?s6 = (flag, t_run, s7)"
    by (metis prod_cases3)
  from assms le inv rp have occ: "occupied_count u1 = n" and
    sp: "stop_phase e ?base ?params
           [(''init_universe'', fst (get_time e (snd (Universe_init height width s)))),
            (''invoke_initial_population'', fst (get_time e s3)),
            (''start_initial_population'',
               fst (get_time e (start_initial_population u1 ?s5))),
            (''run'', t_run)] u1 s7 = Some (Inr res, s')"
    by (auto simp: Lab_experiment_def Let_def split: prod.splits sum.splits if_splits)
  have u0: "u_height ?u0 = height" "u_width ?u0 = width" "\<forall>p. space ?u0 p = None"
    by (simp_all add: Universe_init_def)
  note i = invoke_initial_population_Inr [OF inv u0]
  have s2: "clock_ix ?s2 = clock_ix s + 1" "threads_ix ?s2 = threads_ix s"
     "trace ?s2 = trace s @ [UniverseCreated height width]"
    by (simp_all add: get_time_def Universe_init_def)
  from i s2 have s3: "clock_ix s3 = clock_ix s + 1" "threads_ix s3 = threads_ix s"
     "trace s3 = trace s @ UniverseCreated height width # map AgentCreated ps"
    by simp_all
  then have s6: "clock_ix ?s6 = clock_ix s + 3" "threads_ix ?s6 = threads_ix s + 1"
     "trace ?s6 = trace s @ UniverseCreated height width # map AgentCreated ps @
                  map (\<lambda>a. AgentStarted (fst a)) (population u1)"
     "?base = threads e (threads_ix s)"
     "fst (get_time e s3) = clock e (clock_ix s + 1)"
     "fst (get_time e (start_initial_population u1 ?s5)) = clock e (clock_ix s + 2)"
     "fst (get_time e (snd (Universe_init height width s))) = clock e (clock_ix s)"
    by (simp_all add: get_time_def active_count_def start_initial_population_def
          Universe_init_def)
  from stop_phase_effect [OF sp] obtain k where k:
     "res = \<lparr>parameters = ?params,
             timings =
               [(''init_universe'', fst (get_time e (snd (Universe_init height width s)))),
                (''invoke_initial_population'', fst (get_time e s3)),
                (''start_initial_population'',
                   fst (get_time e (start_initial_population u1 ?s5))),
                (''run'', t_run)] @ [(''stop'', clock e (clock_ix s7))],
             universe = u1\<lparr>freeze := True,
                              culmination := Some (clock e (clock_ix s7))\<rparr>\<rparr>"
     "trace s' = trace s7 @ FreezeSet # replicate k (Slept (1 / 10))"
     "threads_ix s' = threads_ix s7 + 1 + k" "clock_ix s' = clock_ix s7 + 1"
    by auto
  from i have oc: "occupied_count u1 = int (length ps)" by blast
  from i have "distinct ps" by blast
  moreover from oc occ have "int (length ps) = n" by (rule trans [OF sym])
  ultimately have ips: "distinct ps" "int (length ps) = n" by blast+
  show ?thesis
    using le ips occ s6(1-3) rp k unfolding s6(4-7)
    apply (rule_tac x = ps in exI, rule_tac x = u1 in exI, rule_tac x = "?s6" in exI)
    apply (rule_tac x = flag in exI, rule_tac x = t_run in exI, rule_tac x = s7 in exI)
    apply (rule_tac x = k in exI)
    apply simp
    done
qed

text \<open>Evaluation of a run on a grid of one cell.\<close>

lemmas setup_eval = Lab_experiment_def Universe_init_def get_time_def
  invoke_initial_population_def generate_position_first_try nth_draw_def Agent_init_def
  occupied_count_def cells_1_1 active_count_def start_initial_population_def

lemmas run_eval = run_phase_def simulation_duration_def whole_seconds_def range_down_2
  sleep_def

lemmas stop_eval = stop_phase_def drain_done drain_more


subsection \<open>A run without ticks\<close>

lemma run_phase_no_ticks:
  assumes "simulation_duration mtd msd (clock e (clock_ix s)) \<le> 0"
  shows "run_phase e base mtd msd s =
           (False, clock e (clock_ix s + 1), s\<lparr>clock_ix := clock_ix s + 2\<rparr>)"
proof -
  from assms have "range_down (simulation_duration mtd msd (clock e (clock_ix s))) = []"
    by (simp add: range_down_def)
  then show ?thesis
    by (simp add: run_phase_def get_time_def Let_def)
qed

lemma experiment_no_ticks:
  assumes "simulation_duration mtd msd (clock e (clock_ix s + 3)) \<le> 0"
    and "Lab_experiment e height width n mtd msd s = Some (Inr res, s')"
  shows "map_of (timings res) ''run'' = Some (clock e (clock_ix s + 4)) \<and>
         (\<exists>ps k. trace s' = trace s @ UniverseCreated height width # map AgentCreated ps @
                     map (\<lambda>a. AgentStarted (fst a)) (population (universe res)) @
                     FreezeSet # replicate k (Slept (1 / 10)) \<and>
                 threads_ix s' = threads_ix s + 2 + k)"
proof -
  from Lab_experiment_Inr [OF assms(2)] obtain ps u1 s6 flag t_run s7 k where
    s6: "clock_ix s6 = clock_ix s + 3" "threads_ix s6 = threads_ix s + 1"
     "trace s6 = trace s @ UniverseCreated height width # map AgentCreated ps @
                  map (\<lambda>a. AgentStarted (fst a)) (population u1)" and
    rp: "run_phase e (threads e (threads_ix s)) mtd msd s6 = (flag, t_run, s7)" and
    res: "timings res = [(''init_universe'', clock e (clock_ix s)),
                       (''invoke_initial_population'', clock e (clock_ix s + 1)),
                       (''start_initial_population'', clock e (clock_ix s + 2)),
                       (''run'', t_run), (''stop'', clock e (clock_ix s7))]"
         "universe res = u1\<lparr>freeze := True,
                               culmination := Some (clock e (clock_ix s7))\<rparr>" and
    s': "trace s' = trace s7 @ FreezeSet # replicate k (Slept (1 / 10))"
     "threads_ix s' = threads_ix s7 + 1 + k"
    by fastforce
  from assms(1) s6(1) have "simulation_duration mtd msd (clock e (clock_ix s6)) \<le> 0"
    by simp
  from run_phase_no_ticks [OF this] rp have
    "t_run = clock e (clock_ix s6 + 1)" "s7 = s6\<lparr>clock_ix := clock_ix s6 + 2\<rparr>"
    by simp_all
  with s6 res s' show ?thesis
    by (auto simp: add.commute)
qed

text \<open>
  C10. When the duration computed at the start of the run is 0 or less, the run makes no
  tick: in a state \<open>s\<close> at line 66 it reads the clock for \<open>start_running\<close>, leaves
  \<open>early_stop\<close> unset, and reads the clock again for \<open>timings["run"]\<close>; it reads no
  thread count and appends nothing to the trace, so it sleeps not at all. A call of
  \<open>Lab_experiment\<close> in a state \<open>sc\<close> that returns has then recorded as
  \<open>timings["run"]\<close> the reading that follows \<open>start_running\<close>, and in its trace
  the freeze signal follows the start of the agents at once; the sleeps after it are
  those of the shutdown, a tenth of a second each, and the thread count was read for
  the baseline and in the shutdown only.
\<close>

theorem no_ticks_when_duration_not_positive:
  "(simulation_duration mtd msd (clock e (clock_ix s)) \<le> 0 \<longrightarrow>
      run_phase e base mtd msd s =
        (False, clock e (clock_ix s + 1), s\<lparr>clock_ix := clock_ix s + 2\<rparr>))
   \<and> (simulation_duration mtd msd (clock e (clock_ix sc + 3)) \<le> 0 \<and>
      Lab_experiment e height width n mtd msd sc = Some (Inr res, sc') \<longrightarrow>
        map_of (timings res) ''run'' = Some (clock e (clock_ix sc + 4)) \<and>
        (\<exists>ps k. trace sc' = trace sc @ UniverseCreated height width # map AgentCreated ps @
                    map (\<lambda>a. AgentStarted (fst a)) (population (universe res)) @
                    FreezeSet # replicate k (Slept (1 / 10)) \<and>
                threads_ix sc' = threads_ix sc + 2 + k))"
  using run_phase_no_ticks experiment_no_ticks by blast

theorem no_ticks_when_duration_not_positive_witness:
  "run_phase env_died 1 0 2 s_started =
     (False, clock env_died (clock_ix s_started + 1),
      s_started\<lparr>clock_ix := clock_ix s_started + 2\<rparr>)
   \<and> (\<exists>res sc'. Lab_experiment env_died 1 1 1 0 2 s0 = Some (Inr res, sc')
        \<and> map_of (timings res) ''run'' = Some (clock env_died (clock_ix s0 + 4))
        \<and> (\<exists>ps k. trace sc' = trace s0 @ UniverseCreated 1 1 # map AgentCreated ps @
                    map (\<lambda>a. AgentStarted (fst a)) (population (universe res)) @
                    FreezeSet # replicate k (Slept (1 / 10)) \<and>
                threads_ix sc' = threads_ix s0 + 2 + k))"
proof -
  have h1: "simulation_duration 0 2 (clock env_died (clock_ix s_started)) \<le> 0"
    by (simp add: simulation_duration_def whole_seconds_def env_died_def s_started_def)
  have h2: "simulation_duration 0 2 (clock env_died (clock_ix s0 + 3)) \<le> 0"
    by (simp add: simulation_duration_def whole_seconds_def env_died_def s0_def)
  have "\<exists>res sc'. Lab_experiment env_died 1 1 1 0 2 s0 = Some (Inr res, sc')"
    by (simp add: setup_eval run_eval stop_eval range_down_def s0_def env_died_def
             del: generate_position.simps)
  then obtain res sc' where run: "Lab_experiment env_died 1 1 1 0 2 s0 = Some (Inr res, sc')"
    by blast
  from no_ticks_when_duration_not_positive
         [of 0 2 env_died s_started 1 s0 1 1 1 res sc'] h1 h2 run
  show ?thesis by blast
qed

subsection \<open>The timings\<close>

text \<open>
  C8. In the dictionary that \<open>Lab_experiment\<close> returns, the timings are the five
  phases in the order of the code; with a clock whose readings are never negative and
  never decrease, as the spec's data model has it, every timing is non-negative and
  the timings do not decrease in that order. In particular \<open>timings["stop"]\<close> is at
  least \<open>timings["run"]\<close>, and it is the universe's \<open>culmination\<close>.
\<close>

theorem timings_ordered:
  assumes "monotonic_clock e"
    and "Lab_experiment e height width n mtd msd s = Some (Inr res, s')"
  shows "map fst (timings res) =
           [''init_universe'', ''invoke_initial_population'', ''start_initial_population'',
            ''run'', ''stop'']
       \<and> sorted (map snd (timings res))
       \<and> (\<forall>v \<in> set (map snd (timings res)). 0 \<le> v)
       \<and> (\<exists>t_run t_stop. map_of (timings res) ''run'' = Some t_run
             \<and> map_of (timings res) ''stop'' = Some t_stop \<and> t_run \<le> t_stop
             \<and> culmination (universe res) = Some t_stop)"
proof -
  from Lab_experiment_Inr [OF assms(2)] obtain s6 flag t_run s7 u1 where
    s6: "clock_ix s6 = clock_ix s + 3" and
    rp: "run_phase e (threads e (threads_ix s)) mtd msd s6 = (flag, t_run, s7)" and
    res: "timings res = [(''init_universe'', clock e (clock_ix s)),
                       (''invoke_initial_population'', clock e (clock_ix s + 1)),
                       (''start_initial_population'', clock e (clock_ix s + 2)),
                       (''run'', t_run), (''stop'', clock e (clock_ix s7))]"
         "culmination (universe res) = Some (clock e (clock_ix s7))"
    by fastforce
  from run_phase_effect [OF rp] obtain m where
    m0: "t_run = clock e (clock_ix s6 + 1 + m)" "clock_ix s7 = clock_ix s6 + 2 + m"
    by blast
  from s6 have "clock_ix s6 + 1 + m = clock_ix s + 4 + m"
    and "clock_ix s6 + 2 + m = clock_ix s + 5 + m"
    by simp_all
  with m0 have m: "t_run = clock e (clock_ix s + 4 + m)" "clock_ix s7 = clock_ix s + 5 + m"
    by (simp_all only:)
  from assms(1) have mono: "\<And>i j. i \<le> j \<Longrightarrow> clock e i \<le> clock e j"
    and nn: "\<And>i. 0 \<le> clock e i"
    by (auto simp: monotonic_clock_def)
  have "clock e (clock_ix s) \<le> clock e (clock_ix s + 1)"
       "clock e (clock_ix s + 1) \<le> clock e (clock_ix s + 2)"
       "clock e (clock_ix s + 2) \<le> clock e (clock_ix s + 4 + m)"
       "clock e (clock_ix s + 4 + m) \<le> clock e (clock_ix s + 5 + m)"
    by (rule mono, simp)+
  with res m nn show ?thesis by auto
qed

theorem timings_ordered_witness:
  "monotonic_clock env_zeros
   \<and> (\<exists>res s'. Lab_experiment env_zeros 1 1 1 5 2 s0 = Some (Inr res, s')
        \<and> sorted (map snd (timings res))
        \<and> (\<exists>t_run t_stop. map_of (timings res) ''run'' = Some t_run
             \<and> map_of (timings res) ''stop'' = Some t_stop \<and> t_run \<le> t_stop
             \<and> culmination (universe res) = Some t_stop))"
proof -
  have m: "monotonic_clock env_zeros"
    by (simp add: monotonic_clock_def env_zeros_def)
  have "\<exists>res s'. Lab_experiment env_zeros 1 1 1 5 2 s0 = Some (Inr res, s')"
    by (simp add: setup_eval run_eval stop_eval s0_def env_zeros_def
             del: generate_position.simps)
  then obtain res s' where run: "Lab_experiment env_zeros 1 1 1 5 2 s0 = Some (Inr res, s')"
    by blast
  from timings_ordered [OF m run] run m show ?thesis by blast
qed

subsection \<open>The early stop\<close>

text \<open>
  Both runs enter the timed run in the state \<open>s_started\<close>, with a baseline of one
  thread, and what \<open>Lab_experiment\<close> returns is what the shutdown makes of the time
  and the state that the run ends with; the flag of the run is not passed on.
\<close>

lemma runs_enter_at_s_started:
  "Lab_experiment env_died 1 1 1 5 2 s0 =
     (case run_phase env_died 1 5 2 s_started of
        (early_stop, t_run, s7) \<Rightarrow>
          stop_phase env_died 1 (parameters returned_by_both)
            [(''init_universe'', 1000), (''invoke_initial_population'', 2000),
             (''start_initial_population'', 3000), (''run'', t_run)]
            ((universe returned_by_both)\<lparr>freeze := False, culmination := None\<rparr>) s7)
   \<and> Lab_experiment env_alive 1 1 1 5 2 s0 =
     (case run_phase env_alive 1 5 2 s_started of
        (early_stop, t_run, s7) \<Rightarrow>
          stop_phase env_alive 1 (parameters returned_by_both)
            [(''init_universe'', 1000), (''invoke_initial_population'', 2000),
             (''start_initial_population'', 3000), (''run'', t_run)]
            ((universe returned_by_both)\<lparr>freeze := False, culmination := None\<rparr>) s7)"
  by (simp add: setup_eval s0_def s_started_def env_died_def env_alive_def
        returned_by_both_def numeral_2_eq_2 numeral_3_eq_3 del: generate_position.simps)

text \<open>
  C1. The run stops early when the check of a tick reads a thread count at the baseline
  or below, and sets \<open>early_stop\<close>; the dictionary that \<open>Lab_experiment\<close> returns
  does not say so. The two runs below differ in that: in \<open>env_died\<close> the check of the
  second tick sees the baseline and the loop ends by the \<^verbatim>\<open>break\<close>, with
  \<open>early_stop\<close> set and one sleep in the trace; in \<open>env_alive\<close> both ticks sleep
  and \<open>early_stop\<close> stays unset. Both return the same dictionary.
\<close>

theorem early_stop_flag_not_returned:
  "fst (run_phase env_died 1 5 2 s_started)
   \<and> \<not> fst (run_phase env_alive 1 5 2 s_started)
   \<and> map_option fst (Lab_experiment env_died 1 1 1 5 2 s0) = Some (Inr returned_by_both)
   \<and> map_option fst (Lab_experiment env_alive 1 1 1 5 2 s0) = Some (Inr returned_by_both)
   \<and> map_option (\<lambda>r. trace (snd r)) (Lab_experiment env_died 1 1 1 5 2 s0) =
       Some [UniverseCreated 1 1, AgentCreated (Position 0 0), AgentStarted 0,
             Slept (999999 / 1000000), FreezeSet]
   \<and> map_option (\<lambda>r. trace (snd r)) (Lab_experiment env_alive 1 1 1 5 2 s0) =
       Some [UniverseCreated 1 1, AgentCreated (Position 0 0), AgentStarted 0,
             Slept (999999 / 1000000), Slept 0, FreezeSet]"
proof -
  have "fst (run_phase env_died 1 5 2 s_started)"
    by (simp add: run_eval get_time_def active_count_def s_started_def env_died_def)
  moreover have "\<not> fst (run_phase env_alive 1 5 2 s_started)"
    by (simp add: run_eval get_time_def active_count_def s_started_def env_alive_def)
  moreover have "Lab_experiment env_died 1 1 1 5 2 s0 =
      Some (Inr returned_by_both,
            \<lparr>rand_ix = 2, clock_ix = 7, threads_ix = 4,
             trace = [UniverseCreated 1 1, AgentCreated (Position 0 0), AgentStarted 0,
                      Slept (999999 / 1000000), FreezeSet]\<rparr>)"
    apply (simp add: setup_eval s0_def env_died_def del: generate_position.simps)
    apply (simp add: run_eval get_time_def active_count_def)
    apply (simp add: stop_eval get_time_def active_count_def returned_by_both_def)
    done
  moreover have "Lab_experiment env_alive 1 1 1 5 2 s0 =
      Some (Inr returned_by_both,
            \<lparr>rand_ix = 2, clock_ix = 8, threads_ix = 4,
             trace = [UniverseCreated 1 1, AgentCreated (Position 0 0), AgentStarted 0,
                      Slept (999999 / 1000000), Slept 0, FreezeSet]\<rparr>)"
    apply (simp add: setup_eval s0_def env_alive_def del: generate_position.simps)
    apply (simp add: run_eval get_time_def active_count_def)
    apply (simp add: stop_eval get_time_def active_count_def returned_by_both_def)
    done
  ultimately show ?thesis by simp
qed

end
